theory Spec2Isabelle
  imports Complex_Main "HOL-Library.Word"
begin

section \<open>Values handled by the API\<close>

text \<open>
  The payloads are Python dict, list, str, int and float literals. A dict is kept as an
  association list in the order the literal is written. The program performs no arithmetic
  on floats: every float is a literal of the source, and \<open>JFloat q\<close> stands for the float
  that the decimal literal \<open>q\<close> denotes. Integers and floats stay distinct (\<open>2\<close> is not
  \<open>2.0\<close>).
\<close>

datatype json =
    JNull
  | JStr string
  | JInt int
  | JFloat rat
  | JList "json list"
  | JObj "(string \<times> json) list"

type_synonym byte = "8 word"

text \<open>
  Exceptions that the modelled code raises or receives. Every constructor is a class
  derived from Python's \<open>Exception\<close>, which is what \<open>except Exception\<close> catches.
  \<open>HTTPException\<close> carries \<open>status_code\<close> and \<open>detail\<close>;
  \<open>RequestValidationError\<close> is what the framework raises for a request that does not
  fit the declared parameters of a route; \<open>OtherException\<close> is any further
  \<open>Exception\<close> that a collaborator raises.
\<close>

datatype py_exception =
    HTTPException nat string
  | RequestValidationError
  | ImportError
  | ValidationError
  | KeyError string
  | AttributeError
  | OtherException string

section \<open>main.py: utilities\<close>

definition ALLOWED_EXTRACT_TYPES :: "string \<rightharpoonup> string" where
  "ALLOWED_EXTRACT_TYPES = map_of
     [(''bank_statement'', ''Bank Statement Converter''),
      (''invoice'', ''Invoice Scanner''),
      (''receipt'', ''Receipt Scanner''),
      (''salary_slip'', ''Salary Slip Converter''),
      (''credit_card'', ''Credit Card Statement Converter''),
      (''table_extract'', ''Document Table Extractor'')]"

text \<open>\<open>ALLOWED_EXTRACT_TYPES[job_type]\<close>: a missing key raises \<open>KeyError\<close>.\<close>

definition allowed_getitem :: "string \<Rightarrow> py_exception + string" where
  "allowed_getitem job_type =
     (case ALLOWED_EXTRACT_TYPES job_type of
        None \<Rightarrow> Inl (KeyError job_type)
      | Some name \<Rightarrow> Inr name)"

section \<open>schemas.py: the audit record\<close>

record ExtractionJob =
  job_type :: string
  filename :: string
  size_bytes :: "int option"
  status :: string
  result_summary :: "string option"
  meta :: "(string \<times> json) list option"

definition job_type_literals :: "string list" where
  "job_type_literals =
     [''bank_statement'', ''invoice'', ''receipt'', ''salary_slip'', ''credit_card'',
      ''table_extract'', ''summarize'', ''translate'', ''chat'']"

definition status_literals :: "string list" where
  "status_literals = [''success'', ''error'']"

text \<open>
  Constructing the pydantic model validates the two \<open>Literal\<close> fields; the other fields
  are typed by the arguments. A value outside a \<open>Literal\<close> raises \<open>ValidationError\<close>.
\<close>

definition new_ExtractionJob ::
  "string \<Rightarrow> string \<Rightarrow> int option \<Rightarrow> string \<Rightarrow> string option \<Rightarrow> (string \<times> json) list option
     \<Rightarrow> py_exception + ExtractionJob" where
  "new_ExtractionJob jt fname sz st summ m =
     (if jt \<in> set job_type_literals \<and> st \<in> set status_literals
      then Inr \<lparr>job_type = jt, filename = fname, size_bytes = sz, status = st,
                result_summary = summ, meta = m\<rparr>
      else Inl ValidationError)"

section \<open>The document store and the world\<close>

text \<open>
  Documents that \<open>get_documents\<close> hands back. A record is a dict of stored values, or
  something that is no dict (it has no \<open>items\<close>). A stored value is a plain value, a
  store identifier (given by the text \<open>str\<close> yields for it) or a timestamp (given by the
  text its \<open>isoformat\<close> yields).
\<close>

datatype pyval =
    Plain json
  | ObjectId string
  | Datetime string

datatype raw_doc =
    Dict "(string \<times> pyval) list"
  | NotADict

text \<open>
  The module \<open>database\<close> is an external collaborator and is taken as a parameter: its two
  functions act on a store state of type \<open>'s\<close>, and either may raise. The module as a
  whole may be absent (\<open>None\<close>), in which case importing from it raises \<open>ImportError\<close>.
\<close>

record 's database =
  create_document :: "string \<Rightarrow> ExtractionJob \<Rightarrow> 's \<Rightarrow> (py_exception + unit) \<times> 's"
  get_documents :: "string \<Rightarrow> int \<Rightarrow> 's \<Rightarrow> (py_exception + raw_doc list) \<times> 's"

text \<open>
  The effects of a call: the trace lists, in order, each read of the upload and each call
  of a store function; \<open>store\<close> is the state of the document store.
\<close>

datatype event =
    ReadUpload string
  | CallCreateDocument string ExtractionJob
  | CallGetDocuments string int

record 's world =
  trace :: "event list"
  store :: "'s"

definition call_create_document ::
  "'s database \<Rightarrow> string \<Rightarrow> ExtractionJob \<Rightarrow> 's world \<Rightarrow> (py_exception + unit) \<times> 's world" where
  "call_create_document db coll doc w =
     (case create_document db coll doc (store w) of
        (r, s') \<Rightarrow> (r, w\<lparr>trace := trace w @ [CallCreateDocument coll doc], store := s'\<rparr>))"

definition call_get_documents ::
  "'s database \<Rightarrow> string \<Rightarrow> int \<Rightarrow> 's world \<Rightarrow> (py_exception + raw_doc list) \<times> 's world" where
  "call_get_documents db coll limit w =
     (case get_documents db coll limit (store w) of
        (r, s') \<Rightarrow> (r, w\<lparr>trace := trace w @ [CallGetDocuments coll limit], store := s'\<rparr>))"

section \<open>main.py: log_job\<close>

text \<open>The body of the \<open>try\<close> block: the imports, the record, the write.\<close>

definition log_job_try ::
  "'s database option \<Rightarrow> string \<Rightarrow> string \<Rightarrow> int option \<Rightarrow> string \<Rightarrow> string
     \<Rightarrow> (string \<times> json) list option \<Rightarrow> 's world \<Rightarrow> (py_exception + unit) \<times> 's world" where
  "log_job_try dbm jt fname sz st summ m w =
     (case dbm of
        None \<Rightarrow> (Inl ImportError, w)
      | Some db \<Rightarrow>
          (case new_ExtractionJob jt fname sz st (Some summ) m of
             Inl e \<Rightarrow> (Inl e, w)
           | Inr doc \<Rightarrow> call_create_document db ''extractionjob'' doc w))"

text \<open>\<open>except Exception: pass\<close>: whatever the body raised, the call returns normally.\<close>

definition log_job ::
  "'s database option \<Rightarrow> string \<Rightarrow> string \<Rightarrow> int option \<Rightarrow> string \<Rightarrow> string
     \<Rightarrow> (string \<times> json) list option \<Rightarrow> 's world \<Rightarrow> (py_exception + unit) \<times> 's world" where
  "log_job dbm jt fname sz st summ m w =
     (case log_job_try dbm jt fname sz st summ m w of
        (Inl e, w') \<Rightarrow> (Inr (), w')
      | (Inr u, w') \<Rightarrow> (Inr (), w'))"

section \<open>main.py: extract_document\<close>

record UploadFile =
  filename :: string
  content_type :: "string option"
  content :: "byte list"

record ExtractResponse =
  tool :: string
  filename :: string
  size_bytes :: "int option"
  content_type :: "string option"
  summary :: string
  data :: "(string \<times> json) list"

text \<open>\<open>await file.read()\<close>: the whole content, and the read is recorded.\<close>

definition file_read :: "UploadFile \<Rightarrow> 's world \<Rightarrow> byte list \<times> 's world" where
  "file_read file w = (content file, w\<lparr>trace := trace w @ [ReadUpload (UploadFile.filename file)]\<rparr>)"

text \<open>The \<open>if\<close>/\<open>elif\<close> chain that picks \<open>demo_data\<close>, in the order of the source.\<close>

definition demo_data :: "string \<Rightarrow> (string \<times> json) list" where
  "demo_data jt =
     (if jt = ''bank_statement'' then
        [(''account_name'', JStr ''Demo Account''),
         (''account_number'', JStr ''XXXX-1234''),
         (''currency'', JStr ''USD''),
         (''transactions'', JList
            [JObj [(''date'', JStr ''2025-01-04''), (''description'', JStr ''Coffee Shop''),
                   (''debit'', JFloat 4.5), (''credit'', JFloat 0.0), (''balance'', JFloat 1025.5)],
             JObj [(''date'', JStr ''2025-01-06''), (''description'', JStr ''Salary''),
                   (''debit'', JFloat 0.0), (''credit'', JFloat 3000.0), (''balance'', JFloat 4025.5)]])]
      else if jt = ''credit_card'' then
        [(''cardholder'', JStr ''Demo User''),
         (''last4'', JStr ''4242''),
         (''currency'', JStr ''USD''),
         (''transactions'', JList
            [JObj [(''date'', JStr ''2025-01-03''), (''merchant'', JStr ''Online Store''),
                   (''amount'', JFloat (- 89.99)), (''category'', JStr ''Shopping'')],
             JObj [(''date'', JStr ''2025-01-07''), (''merchant'', JStr ''Airline''),
                   (''amount'', JFloat (- 240.0)), (''category'', JStr ''Travel'')]])]
      else if jt = ''invoice'' then
        [(''merchant'', JStr ''Acme Corp''),
         (''invoice_number'', JStr ''INV-1001''),
         (''issue_date'', JStr ''2025-01-02''),
         (''due_date'', JStr ''2025-01-16''),
         (''items'', JList
            [JObj [(''description'', JStr ''Widget A''), (''qty'', JInt 2),
                   (''price'', JFloat 49.99), (''total'', JFloat 99.98)],
             JObj [(''description'', JStr ''Service Fee''), (''qty'', JInt 1),
                   (''price'', JFloat 15.0), (''total'', JFloat 15.0)]]),
         (''subtotal'', JFloat 114.98),
         (''tax'', JFloat 9.2),
         (''grand_total'', JFloat 124.18)]
      else if jt = ''receipt'' then
        [(''merchant'', JStr ''Corner Market''),
         (''date'', JStr ''2025-01-05''),
         (''items'', JList
            [JObj [(''name'', JStr ''Bananas''), (''qty'', JInt 3),
                   (''unit_price'', JFloat 0.59), (''total'', JFloat 1.77)],
             JObj [(''name'', JStr ''Milk''), (''qty'', JInt 1),
                   (''unit_price'', JFloat 2.49), (''total'', JFloat 2.49)]]),
         (''total'', JFloat 4.26)]
      else if jt = ''salary_slip'' then
        [(''employee'', JStr ''Demo Employee''),
         (''month'', JStr ''2025-01''),
         (''earnings'', JObj [(''basic'', JFloat 2500.0), (''hra'', JFloat 800.0),
                              (''bonus'', JFloat 200.0)]),
         (''deductions'', JObj [(''tax'', JFloat 450.0), (''insurance'', JFloat 50.0)]),
         (''net_pay'', JFloat 3000.0)]
      else
        [(''tables'', JList
            [JObj [(''name'', JStr ''Table 1''),
                   (''columns'', JList [JStr ''Date'', JStr ''Description'', JStr ''Amount'']),
                   (''rows'', JList
                      [JList [JStr ''2025-01-01'', JStr ''Opening Balance'', JStr ''1000.00''],
                       JList [JStr ''2025-01-02'', JStr ''Subscription'', JStr ''-12.00'']])]])])"

text \<open>\<open>f"Parsed {name} for {file.filename} (demo)"\<close>\<close>

definition summary_text :: "string \<Rightarrow> string \<Rightarrow> string" where
  "summary_text name fname = ''Parsed '' @ name @ '' for '' @ fname @ '' (demo)''"

text \<open>\<open>{"content_type": file.content_type}\<close>, where the content type may be \<open>None\<close>.\<close>

definition content_type_meta :: "string option \<Rightarrow> (string \<times> json) list" where
  "content_type_meta ct = [(''content_type'', (case ct of None \<Rightarrow> JNull | Some s \<Rightarrow> JStr s))]"

text \<open>
  The body of the handler, as Python runs it on whatever string it is called with. The
  form field \<open>options\<close> is a parameter that the body never reads. The first store
  parameter is the \<open>database\<close> module, absent when \<open>None\<close>. The declared type of
  \<open>job_type\<close> is enforced by the route, \<open>post_extract\<close> below, not by the body.
\<close>

definition extract_document ::
  "'s database option \<Rightarrow> string \<Rightarrow> UploadFile \<Rightarrow> string option \<Rightarrow> 's world
     \<Rightarrow> (py_exception + ExtractResponse) \<times> 's world" where
  "extract_document dbm jt file options w =
     (if ALLOWED_EXTRACT_TYPES jt = None
      then (Inl (HTTPException 400 ''Unsupported job type''), w)
      else
        (case file_read file w of
           (bytes, w1) \<Rightarrow>
             (let sz = int (length bytes);
                  payload = demo_data jt
              in case allowed_getitem jt of
                   Inl e \<Rightarrow> (Inl e, w1)
                 | Inr name \<Rightarrow>
                     (let summ = summary_text name (UploadFile.filename file)
                      in case log_job dbm jt (UploadFile.filename file) (Some sz) ''success'' summ
                                (Some (content_type_meta (UploadFile.content_type file))) w1 of
                           (Inl e, w2) \<Rightarrow> (Inl e, w2)
                         | (Inr u, w2) \<Rightarrow>
                             (case allowed_getitem jt of
                                Inl e \<Rightarrow> (Inl e, w2)
                              | Inr name' \<Rightarrow>
                                  (Inr \<lparr>tool = name',
                                        filename = UploadFile.filename file,
                                        size_bytes = Some sz,
                                        content_type = UploadFile.content_type file,
                                        summary = summ,
                                        data = payload\<rparr>, w2))))))"

section \<open>main.py: the route of extract_document\<close>

text \<open>
  The values of \<open>Literal[...]\<close> that the decorated handler declares for the path
  parameter \<open>job_type\<close>, in the order of the source.
\<close>

definition path_job_types :: "string list" where
  "path_job_types =
     [''bank_statement'', ''invoice'', ''receipt'', ''salary_slip'', ''credit_card'',
      ''table_extract'']"

text \<open>
  The route \<open>POST /api/extract/{job_type}\<close>. The framework checks the path segment
  against the declared type before it calls the handler: a segment that is none of the
  declared values raises \<open>RequestValidationError\<close> and the handler does not run; a
  declared value is handed to the handler.
\<close>

definition post_extract ::
  "'s database option \<Rightarrow> string \<Rightarrow> UploadFile \<Rightarrow> string option \<Rightarrow> 's world
     \<Rightarrow> (py_exception + ExtractResponse) \<times> 's world" where
  "post_extract dbm jt file options w =
     (if jt \<in> set path_job_types
      then extract_document dbm jt file options w
      else (Inl RequestValidationError, w))"


section \<open>main.py: list_jobs\<close>

record JobListing =
  items :: "(string \<times> pyval) list list"

text \<open>
  The local function \<open>_clean\<close>, one key at a time: a value with an \<open>isoformat\<close>
  attribute (a timestamp) is replaced by that text; otherwise the value under \<open>_id\<close> is
  replaced by \<open>str(v)\<close> and any other value is kept. Python's builtin \<open>str\<close> on plain
  values is taken as the parameter \<open>str_builtin\<close>; on a store identifier it yields the
  identifier's text.
\<close>

definition clean_value :: "(json \<Rightarrow> string) \<Rightarrow> string \<Rightarrow> pyval \<Rightarrow> pyval" where
  "clean_value str_builtin k v =
     (case v of
        Datetime t \<Rightarrow> Plain (JStr t)
      | ObjectId h \<Rightarrow> (if k = ''_id'' then Plain (JStr h) else ObjectId h)
      | Plain j \<Rightarrow> (if k = ''_id'' then Plain (JStr (str_builtin j)) else Plain j))"

text \<open>\<open>d.items()\<close> raises \<open>AttributeError\<close> on a record that is no dict.\<close>

definition clean :: "(json \<Rightarrow> string) \<Rightarrow> raw_doc \<Rightarrow> py_exception + (string \<times> pyval) list" where
  "clean str_builtin d =
     (case d of
        NotADict \<Rightarrow> Inl AttributeError
      | Dict kvs \<Rightarrow> Inr (map (\<lambda>(k, v). (k, clean_value str_builtin k v)) kvs))"

text \<open>\<open>[_clean(doc) for doc in docs]\<close>: the first record that raises ends the loop.\<close>

fun clean_all ::
  "(json \<Rightarrow> string) \<Rightarrow> raw_doc list \<Rightarrow> py_exception + (string \<times> pyval) list list" where
  "clean_all str_builtin [] = Inr []"
| "clean_all str_builtin (d # ds) =
     (case clean str_builtin d of
        Inl e \<Rightarrow> Inl e
      | Inr c \<Rightarrow>
          (case clean_all str_builtin ds of
             Inl e \<Rightarrow> Inl e
           | Inr cs \<Rightarrow> Inr (c # cs)))"

text \<open>The body of the \<open>try\<close> block.\<close>

definition list_jobs_try ::
  "'s database option \<Rightarrow> (json \<Rightarrow> string) \<Rightarrow> int \<Rightarrow> 's world
     \<Rightarrow> (py_exception + JobListing) \<times> 's world" where
  "list_jobs_try dbm str_builtin limit w =
     (case dbm of
        None \<Rightarrow> (Inl ImportError, w)
      | Some db \<Rightarrow>
          (case call_get_documents db ''extractionjob'' limit w of
             (Inl e, w') \<Rightarrow> (Inl e, w')
           | (Inr docs, w') \<Rightarrow>
               (case clean_all str_builtin docs of
                  Inl e \<Rightarrow> (Inl e, w')
                | Inr cleaned \<Rightarrow> (Inr \<lparr>items = cleaned\<rparr>, w'))))"

text \<open>\<open>except Exception: return {"items": []}\<close>\<close>

definition list_jobs ::
  "'s database option \<Rightarrow> (json \<Rightarrow> string) \<Rightarrow> int \<Rightarrow> 's world
     \<Rightarrow> (py_exception + JobListing) \<times> 's world" where
  "list_jobs dbm str_builtin limit w =
     (case list_jobs_try dbm str_builtin limit w of
        (Inl e, w') \<Rightarrow> (Inr \<lparr>items = []\<rparr>, w')
      | (Inr r, w') \<Rightarrow> (Inr r, w'))"

section \<open>main.py: summarize\<close>

text \<open>
  The request text is a Python \<open>str\<close>: a sequence of code points, each a natural number.
  \<open>ascii\<close> embeds the ASCII literals of the source.
\<close>

type_synonym ustr = "nat list"

definition ascii :: "string \<Rightarrow> ustr" where
  "ascii s = map of_char s"

text \<open>
  The code points that \<open>str.strip()\<close> removes: tab to carriage return, the four
  separators \<open>0x1C\<close> to \<open>0x1F\<close>, space, \<open>0x85\<close>, \<open>0xA0\<close>, \<open>0x1680\<close>,
  \<open>0x2000\<close> to \<open>0x200A\<close>, \<open>0x2028\<close>, \<open>0x2029\<close>, \<open>0x202F\<close>, \<open>0x205F\<close>,
  \<open>0x3000\<close>.
\<close>

definition isspace :: "nat \<Rightarrow> bool" where
  "isspace c =
     ((9 \<le> c \<and> c \<le> 13) \<or> (28 \<le> c \<and> c \<le> 32) \<or> c = 133 \<or> c = 160 \<or> c = 5760
      \<or> (8192 \<le> c \<and> c \<le> 8202) \<or> c = 8232 \<or> c = 8233 \<or> c = 8239 \<or> c = 8287
      \<or> c = 12288)"

definition py_strip :: "ustr \<Rightarrow> ustr" where
  "py_strip s = rev (dropWhile isspace (rev (dropWhile isspace s)))"

text \<open>
  \<open>s.split(sep)\<close> for a non-empty separator: scan from the left, cut at each occurrence
  and go on behind it. \<open>acc\<close> is the fragment under construction, reversed. (Python
  raises on an empty separator; the source passes the literal \<open>". "\<close>, and here an empty
  separator never matches.)
\<close>

function split_from :: "'a list \<Rightarrow> 'a list \<Rightarrow> 'a list \<Rightarrow> 'a list list" where
  "split_from sep acc [] = [rev acc]"
| "split_from sep acc (c # cs) =
     (if sep \<noteq> [] \<and> take (length sep) (c # cs) = sep
      then rev acc # split_from sep [] (drop (length sep) (c # cs))
      else split_from sep (c # acc) cs)"
  by pat_completeness auto
termination
  by (relation "measure (\<lambda>(sep, acc, s). length s)") auto

definition py_split :: "'a list \<Rightarrow> 'a list \<Rightarrow> 'a list list" where
  "py_split sep s = split_from sep [] s"

text \<open>
  The slice \<open>xs[:n]\<close>: the first \<open>n\<close> elements when \<open>n\<close> is not negative, and all but
  the last \<open>-n\<close> elements when it is.
\<close>

definition py_slice_to :: "'a list \<Rightarrow> int \<Rightarrow> 'a list" where
  "py_slice_to xs n =
     (if 0 \<le> n then take (nat n) xs else take (length xs - nat (- n)) xs)"

fun py_join :: "'a list \<Rightarrow> 'a list list \<Rightarrow> 'a list" where
  "py_join sep [] = []"
| "py_join sep [x] = x"
| "py_join sep (x # y # ys) = x @ sep @ py_join sep (y # ys)"

text \<open>The handler; the result is the value under \<open>"summary"\<close> of the returned dict.\<close>

definition summarize :: "ustr \<Rightarrow> int \<Rightarrow> ustr" where
  "summarize text max_sentences =
     (let snippet = py_slice_to (py_split (ascii ''. '') (py_strip text)) max_sentences;
          summ = py_join (ascii ''. '') snippet
      in if summ = [] then ascii ''No content provided.'' else summ)"

section \<open>The specification's wording\<close>

text \<open>
  The summarizer as the specification words it: strip, split on \<open>". "\<close>, take the first
  \<open>max_sentences\<close> fragments, rejoin, and fall back to the fixed text when empty.
\<close>

definition summarize_spec :: "ustr \<Rightarrow> int \<Rightarrow> ustr" where
  "summarize_spec text max_sentences =
     (let fragments = take (nat max_sentences) (py_split (ascii ''. '') (py_strip text));
          joined = py_join (ascii ''. '') fragments
      in if joined = [] then ascii ''No content provided.'' else joined)"

text \<open>
  The field shapes of the specification's table per job type: a scalar (a string or a
  number), a list whose elements all have one shape, or an object with exactly the listed
  keys, each of its shape.
\<close>

datatype shape =
    Scalar
  | ListOf shape
  | Object "(string \<times> shape) list"

fun conforms :: "shape \<Rightarrow> json \<Rightarrow> bool"
  and conforms_list :: "shape \<Rightarrow> json list \<Rightarrow> bool"
  and conforms_fields :: "(string \<times> shape) list \<Rightarrow> (string \<times> json) list \<Rightarrow> bool" where
  "conforms Scalar (JStr s) = True"
| "conforms Scalar (JInt i) = True"
| "conforms Scalar (JFloat q) = True"
| "conforms (ListOf sh) (JList js) = conforms_list sh js"
| "conforms (Object fs) (JObj kvs) = conforms_fields fs kvs"
| "conforms sh j = False"
| "conforms_list sh [] = True"
| "conforms_list sh (j # js) = (conforms sh j \<and> conforms_list sh js)"
| "conforms_fields [] [] = True"
| "conforms_fields ((k, sh) # fs) ((k', v) # kvs) =
     (k = k' \<and> conforms sh v \<and> conforms_fields fs kvs)"
| "conforms_fields fs kvs = False"

definition scalars :: "string list \<Rightarrow> (string \<times> shape) list" where
  "scalars ks = map (\<lambda>k. (k, Scalar)) ks"

definition spec_shape :: "string \<rightharpoonup> shape" where
  "spec_shape = map_of
     [(''bank_statement'', Object
         (scalars [''account_name'', ''account_number'', ''currency''] @
          [(''transactions'', ListOf (Object
              (scalars [''date'', ''description'', ''debit'', ''credit'', ''balance''])))])),
      (''credit_card'', Object
         (scalars [''cardholder'', ''last4'', ''currency''] @
          [(''transactions'', ListOf (Object
              (scalars [''date'', ''merchant'', ''amount'', ''category''])))])),
      (''invoice'', Object
         (scalars [''merchant'', ''invoice_number'', ''issue_date'', ''due_date''] @
          [(''items'', ListOf (Object
              (scalars [''description'', ''qty'', ''price'', ''total''])))] @
          scalars [''subtotal'', ''tax'', ''grand_total''])),
      (''receipt'', Object
         (scalars [''merchant'', ''date''] @
          [(''items'', ListOf (Object
              (scalars [''name'', ''qty'', ''unit_price'', ''total''])))] @
          scalars [''total''])),
      (''salary_slip'', Object
         (scalars [''employee'', ''month''] @
          [(''earnings'', Object (scalars [''basic'', ''hra'', ''bonus''])),
           (''deductions'', Object (scalars [''tax'', ''insurance'']))] @
          scalars [''net_pay''])),
      (''table_extract'', Object
         [(''tables'', ListOf (Object
             (scalars [''name''] @
              [(''columns'', ListOf Scalar),
               (''rows'', ListOf (ListOf Scalar))])))])]"

text \<open>The closed set of job types, as the specification lists it.\<close>

definition closed_set :: "string set" where
  "closed_set =
     {''bank_statement'', ''invoice'', ''receipt'', ''salary_slip'', ''credit_card'',
      ''table_extract''}"

section \<open>Sample stores and uploads\<close>

text \<open>A store that works: it keeps every record, in order, and lists none back.\<close>

definition memory_db :: "ExtractionJob list database" where
  "memory_db =
     \<lparr>create_document = (\<lambda>coll doc s. (Inr (), s @ [doc])),
      get_documents = (\<lambda>coll limit s. (Inr [], s))\<rparr>"

text \<open>A store whose every call raises.\<close>

definition broken_db :: "unit database" where
  "broken_db =
     \<lparr>create_document = (\<lambda>coll doc s. (Inl (OtherException ''write failed''), s)),
      get_documents = (\<lambda>coll limit s. (Inl (OtherException ''read failed''), s))\<rparr>"

text \<open>A store that lists one well-formed record and one that is no dict.\<close>

definition odd_db :: "unit database" where
  "odd_db =
     \<lparr>create_document = (\<lambda>coll doc s. (Inr (), s)),
      get_documents = (\<lambda>coll limit s.
         (Inr [Dict [(''_id'', ObjectId ''65a0''), (''status'', Plain (JStr ''success''))],
               NotADict], s))\<rparr>"

definition ten_bytes :: UploadFile where
  "ten_bytes =
     \<lparr>UploadFile.filename = ''a.txt'', UploadFile.content_type = Some ''text/plain'',
      content = [1, 2, 3, 4, 5, 6, 7, 8, 9, 10]\<rparr>"

definition ten_zeros :: UploadFile where
  "ten_zeros =
     \<lparr>UploadFile.filename = ''a.txt'', UploadFile.content_type = Some ''text/plain'',
      content = [0, 0, 0, 0, 0, 0, 0, 0, 0, 0]\<rparr>"

definition fresh :: "'s \<Rightarrow> 's world" where
  "fresh s = \<lparr>trace = [], store = s\<rparr>"

text \<open>A stand-in for the builtin \<open>str\<close> on plain values.\<close>

definition sample_str :: "json \<Rightarrow> string" where
  "sample_str j = (case j of JStr s \<Rightarrow> s | _ \<Rightarrow> ''?'')"

section \<open>Properties of log_job and extract_document\<close>

lemma log_job_returns: "fst (log_job dbm jt fname sz st summ m w) = Inr ()"
  unfolding log_job_def by (simp split: prod.splits sum.splits)

lemma allowed_getitem_Some:
  "ALLOWED_EXTRACT_TYPES jt = Some name \<Longrightarrow> allowed_getitem jt = Inr name"
  by (simp add: allowed_getitem_def)

lemma closed_set_allowed:
  "jt \<in> closed_set \<Longrightarrow> \<exists>name. ALLOWED_EXTRACT_TYPES jt = Some name"
  by (auto simp add: ALLOWED_EXTRACT_TYPES_def closed_set_def)

lemma not_closed_set_allowed:
  "jt \<notin> closed_set \<Longrightarrow> ALLOWED_EXTRACT_TYPES jt = None"
  by (simp add: ALLOWED_EXTRACT_TYPES_def closed_set_def)

lemma extract_document_response:
  assumes "ALLOWED_EXTRACT_TYPES jt = Some name"
  shows "fst (extract_document dbm jt file options w) =
           Inr \<lparr>tool = name,
                filename = UploadFile.filename file,
                size_bytes = Some (int (length (content file))),
                content_type = UploadFile.content_type file,
                summary = summary_text name (UploadFile.filename file),
                data = demo_data jt\<rparr>"
proof -
  obtain w1 where r: "file_read file w = (content file, w1)"
    by (simp add: file_read_def)
  obtain w2 where l: "log_job dbm jt (UploadFile.filename file) (Some (int (length (content file))))
        ''success'' (summary_text name (UploadFile.filename file))
        (Some (content_type_meta (UploadFile.content_type file))) w1 = (Inr (), w2)"
    using log_job_returns [of dbm jt "UploadFile.filename file" _ "''success''" _ _ w1]
    by (metis fst_conv surj_pair)
  show ?thesis
    using assms r l by (simp add: extract_document_def allowed_getitem_Some Let_def)
qed

lemma extract_document_rejects:
  assumes "ALLOWED_EXTRACT_TYPES jt = None"
  shows "extract_document dbm jt file options w =
           (Inl (HTTPException 400 ''Unsupported job type''), w)"
  using assms by (simp add: extract_document_def)

lemma allowed_receipt: "ALLOWED_EXTRACT_TYPES ''receipt'' = Some ''Receipt Scanner''"
  by (simp add: ALLOWED_EXTRACT_TYPES_def)

lemma receipt_total: "map_of (demo_data ''receipt'') ''total'' = Some (JFloat 4.26)"
  by (simp add: demo_data_def)

lemma summary_text_receipt:
  "summary_text ''Receipt Scanner'' ''a.txt'' = ''Parsed Receipt Scanner for a.txt (demo)''"
  by (simp add: summary_text_def)

lemma path_job_types_closed_set: "set path_job_types = closed_set"
  by (simp add: path_job_types_def closed_set_def)

text \<open>Every value that the route hands to the handler passes the handler's own guard.\<close>

lemma admitted_passes_guard:
  "jt \<in> set path_job_types \<Longrightarrow> ALLOWED_EXTRACT_TYPES jt \<noteq> None"
  using closed_set_allowed [of jt] by (simp add: path_job_types_closed_set)

lemma post_extract_admitted:
  "jt \<in> closed_set \<Longrightarrow> post_extract dbm jt file options w = extract_document dbm jt file options w"
  by (simp add: post_extract_def path_job_types_closed_set)




section \<open>The payload of each job type has the shape of the table\<close>

lemma shape_bank_statement:
  "\<exists>sh. spec_shape ''bank_statement'' = Some sh \<and> conforms sh (JObj (demo_data ''bank_statement''))"
  by (simp add: spec_shape_def demo_data_def scalars_def)

lemma shape_credit_card:
  "\<exists>sh. spec_shape ''credit_card'' = Some sh \<and> conforms sh (JObj (demo_data ''credit_card''))"
  by (simp add: spec_shape_def demo_data_def scalars_def)

lemma shape_invoice:
  "\<exists>sh. spec_shape ''invoice'' = Some sh \<and> conforms sh (JObj (demo_data ''invoice''))"
  by (simp add: spec_shape_def demo_data_def scalars_def)

lemma shape_receipt:
  "\<exists>sh. spec_shape ''receipt'' = Some sh \<and> conforms sh (JObj (demo_data ''receipt''))"
  by (simp add: spec_shape_def demo_data_def scalars_def)

lemma shape_salary_slip:
  "\<exists>sh. spec_shape ''salary_slip'' = Some sh \<and> conforms sh (JObj (demo_data ''salary_slip''))"
  by (simp add: spec_shape_def demo_data_def scalars_def)

lemma shape_table_extract:
  "\<exists>sh. spec_shape ''table_extract'' = Some sh \<and> conforms sh (JObj (demo_data ''table_extract''))"
  by (simp add: spec_shape_def demo_data_def scalars_def)

lemma closed_set_cases:
  assumes "jt \<in> closed_set"
  shows "jt = ''bank_statement'' \<or> jt = ''invoice'' \<or> jt = ''receipt''
    \<or> jt = ''salary_slip'' \<or> jt = ''credit_card'' \<or> jt = ''table_extract''"
  using assms by (simp only: closed_set_def insert_iff empty_iff simp_thms)

lemma demo_data_conforms:
  assumes "jt \<in> closed_set"
  shows "\<exists>sh. spec_shape jt = Some sh \<and> conforms sh (JObj (demo_data jt))"
proof -
  from closed_set_cases [OF assms] show ?thesis
  proof (elim disjE)
    assume "jt = ''bank_statement''"
    then show ?thesis by (simp only: shape_bank_statement)
  next
    assume "jt = ''invoice''"
    then show ?thesis by (simp only: shape_invoice)
  next
    assume "jt = ''receipt''"
    then show ?thesis by (simp only: shape_receipt)
  next
    assume "jt = ''salary_slip''"
    then show ?thesis by (simp only: shape_salary_slip)
  next
    assume "jt = ''credit_card''"
    then show ?thesis by (simp only: shape_credit_card)
  next
    assume "jt = ''table_extract''"
    then show ?thesis by (simp only: shape_table_extract)
  qed
qed

section \<open>Properties of list_jobs\<close>

lemma list_jobs_returns: "\<exists>r. fst (list_jobs dbm str_builtin limit w) = Inr r"
  unfolding list_jobs_def by (simp split: prod.splits sum.splits)

lemma list_jobs_on_failure:
  "fst (list_jobs_try dbm str_builtin limit w) = Inl e
   \<Longrightarrow> fst (list_jobs dbm str_builtin limit w) = Inr \<lparr>items = []\<rparr>"
  by (cases "list_jobs_try dbm str_builtin limit w") (simp add: list_jobs_def)

lemma list_jobs_try_absent: "fst (list_jobs_try None str_builtin limit w) = Inl ImportError"
  by (simp add: list_jobs_try_def)

lemma list_jobs_try_read_error:
  "fst (get_documents db ''extractionjob'' limit (store w)) = Inl e
   \<Longrightarrow> fst (list_jobs_try (Some db) str_builtin limit w) = Inl e"
  by (cases "get_documents db ''extractionjob'' limit (store w)")
     (simp add: list_jobs_try_def call_get_documents_def)

lemma list_jobs_try_clean_error:
  "fst (get_documents db ''extractionjob'' limit (store w)) = Inr docs
   \<Longrightarrow> clean_all str_builtin docs = Inl e
   \<Longrightarrow> fst (list_jobs_try (Some db) str_builtin limit w) = Inl e"
  by (cases "get_documents db ''extractionjob'' limit (store w)")
     (simp add: list_jobs_try_def call_get_documents_def)

lemma broken_get:
  "fst (get_documents broken_db ''extractionjob'' 20 (store (fresh ()))) = Inl (OtherException ''read failed'')"
  by (simp add: broken_db_def)

lemma odd_get:
  "fst (get_documents odd_db ''extractionjob'' 20 (store (fresh ()))) =
     Inr [Dict [(''_id'', ObjectId ''65a0''), (''status'', Plain (JStr ''success''))], NotADict]"
  by (simp add: odd_db_def)

lemma odd_clean:
  "clean_all sample_str [Dict [(''_id'', ObjectId ''65a0''), (''status'', Plain (JStr ''success''))], NotADict]
     = Inl AttributeError"
  by (simp add: clean_def)

section \<open>Properties of summarize\<close>

lemma ascii_text: "ascii ''A. B. C. D.'' = [65, 46, 32, 66, 46, 32, 67, 46, 32, 68, 46]"
  by (simp add: ascii_def)

lemma ascii_sep: "ascii ''. '' = [46, 32]"
  by (simp add: ascii_def)

lemma strip_text: "py_strip [65, 46, 32, 66, 46, 32, 67, 46, 32, 68, 46] = [65, 46, 32, 66, 46, 32, 67, 46, 32, 68, 46]"
  by (simp add: py_strip_def isspace_def)

lemma split_text:
  "py_split [46, 32] [65, 46, 32, 66, 46, 32, 67, 46, 32, 68, 46::nat] = [[65], [66], [67], [68, 46]]"
  by (simp add: py_split_def)

lemma ascii_abc: "ascii ''A. B. C'' = [65, 46, 32, 66, 46, 32, 67]"
  by (simp add: ascii_def)

lemma ascii_ab: "ascii ''A. B'' = [65, 46, 32, 66]"
  by (simp add: ascii_def)

lemma ascii_fallback: "ascii ''No content provided.'' =
  [78, 111, 32, 99, 111, 110, 116, 101, 110, 116, 32, 112, 114, 111, 118, 105, 100, 101, 100, 46]"
  by (simp add: ascii_def)

lemma fragments_text:
  "py_split [46, 32] (py_strip (ascii ''A. B. C. D.'')) = [[65], [66], [67], [68, 46]]"
  by (simp only: ascii_text strip_text split_text)

lemma join_two: "py_join [46, 32] [[65], [66::nat]] = [65, 46, 32, 66]"
  by simp

lemma join_three: "py_join [46, 32] [[65], [66], [67::nat]] = [65, 46, 32, 66, 46, 32, 67]"
  by simp

lemma slice_two: "py_slice_to [[65], [66], [67], [68, 46::nat]] 2 = [[65], [66]]"
  by (simp add: py_slice_to_def)

lemma slice_minus_one: "py_slice_to [[65], [66], [67], [68, 46::nat]] (- 1) = [[65], [66], [67]]"
  by (simp add: py_slice_to_def)

lemma summarize_scenario: "summarize (ascii ''A. B. C. D.'') 2 = ascii ''A. B''"
  unfolding summarize_def ascii_sep fragments_text slice_two join_two ascii_ab Let_def
  by simp

lemma summarize_minus_one: "summarize (ascii ''A. B. C. D.'') (- 1) = ascii ''A. B. C''"
  unfolding summarize_def ascii_sep fragments_text slice_minus_one join_three ascii_abc Let_def
  by simp

lemma summarize_spec_minus_one:
  "summarize_spec (ascii ''A. B. C. D.'') (- 1) = ascii ''No content provided.''"
  unfolding summarize_spec_def Let_def by simp

lemma py_slice_to_nonneg: "0 \<le> n \<Longrightarrow> py_slice_to xs n = take (nat n) xs"
  by (simp add: py_slice_to_def)

text \<open>Joining the fragments of a split with the separator gives the text back.\<close>

lemma split_from_nonempty: "split_from sep acc s \<noteq> []"
  by (induction sep acc s rule: split_from.induct) simp_all

lemma py_join_Cons: "ys \<noteq> [] \<Longrightarrow> py_join sep (x # ys) = x @ sep @ py_join sep ys"
  by (cases ys) simp_all

lemma join_split_from: "py_join sep (split_from sep acc s) = rev acc @ s"
proof (induction sep acc s rule: split_from.induct)
  case (1 sep acc)
  show ?case by simp
next
  case (2 sep acc c cs)
  show ?case
  proof (cases "sep \<noteq> [] \<and> take (length sep) (c # cs) = sep")
    case True
    have "split_from sep acc (c # cs) = rev acc # split_from sep [] (drop (length sep) (c # cs))"
      using True by (subst split_from.simps) simp
    then have "py_join sep (split_from sep acc (c # cs)) =
        rev acc @ sep @ py_join sep (split_from sep [] (drop (length sep) (c # cs)))"
      by (simp only: py_join_Cons [OF split_from_nonempty])
    also have "\<dots> = rev acc @ sep @ drop (length sep) (c # cs)"
      using 2(1) [OF True] by (simp only: rev.simps append_Nil)
    also have "\<dots> = rev acc @ take (length sep) (c # cs) @ drop (length sep) (c # cs)"
      using True by (simp only:)
    also have "\<dots> = rev acc @ c # cs"
      by (simp only: append_take_drop_id)
    finally show ?thesis .
  next
    case False
    have "split_from sep acc (c # cs) = split_from sep (c # acc) cs"
      using False by (subst split_from.simps) auto
    then have "py_join sep (split_from sep acc (c # cs)) = py_join sep (split_from sep (c # acc) cs)"
      by (simp only:)
    also have "\<dots> = rev (c # acc) @ cs"
      using 2(2) [OF False] .
    finally show ?thesis by simp
  qed
qed

lemma join_split: "py_join sep (py_split sep s) = s"
  by (simp add: py_split_def join_split_from)

section \<open>The claims\<close>

text \<open>
  C1. For every job type of the closed set and every upload, \<open>extract_document\<close> returns a
  response, and its \<open>data\<close> has the shape that the specification's table gives for the job
  type: the listed keys and no others, lists and objects nested as listed, scalars at the
  leaves.
\<close>

theorem extract_data_shape:
  assumes "jt \<in> closed_set"
  shows "\<exists>r sh. fst (extract_document dbm jt file options w) = Inr r
           \<and> spec_shape jt = Some sh \<and> conforms sh (JObj (data r))"
proof -
  from assms obtain name where n: "ALLOWED_EXTRACT_TYPES jt = Some name"
    using closed_set_allowed by blast
  from assms obtain sh where s: "spec_shape jt = Some sh" "conforms sh (JObj (demo_data jt))"
    using demo_data_conforms by blast
  show ?thesis
    using s by (simp add: extract_document_response [OF n])
qed

theorem extract_data_shape_witness:
  "''salary_slip'' \<in> closed_set
   \<and> (\<exists>r sh. fst (extract_document (Some memory_db) ''salary_slip'' ten_bytes None (fresh [])) = Inr r
         \<and> spec_shape ''salary_slip'' = Some sh \<and> conforms sh (JObj (data r)))"
proof -
  have h: "''salary_slip'' \<in> closed_set" by (simp add: closed_set_def)
  from h extract_data_shape [OF h, of "Some memory_db" ten_bytes None "fresh []"]
  show ?thesis by (rule conjI)
qed




text \<open>
  C3. \<open>log_job\<close> returns normally for all arguments, for every store and for an absent
  store. The response of \<open>extract_document\<close> is the same for any two stores (absent,
  raising or working) and any two worlds, and for a job type of the closed set it is a
  response, not an exception.
\<close>

theorem log_job_never_raises:
  "fst (log_job dbm jt fname sz st summ m w) = Inr ()
   \<and> fst (extract_document dbm jt file options w) = fst (extract_document dbm' jt file options w')
   \<and> (jt \<in> closed_set \<longrightarrow> (\<exists>r. fst (extract_document dbm jt file options w) = Inr r))"
proof (cases "ALLOWED_EXTRACT_TYPES jt")
  case None
  have "jt \<notin> closed_set"
    using None closed_set_allowed [of jt] by auto
  then show ?thesis
    by (simp add: log_job_returns extract_document_rejects [OF None])
next
  case (Some name)
  then show ?thesis
    by (simp add: log_job_returns extract_document_response [OF Some])
qed

theorem log_job_never_raises_witness:
  "''invoice'' \<in> closed_set
   \<and> fst (log_job (Some broken_db) ''invoice'' ''a.txt'' (Some 10) ''success'' ''done'' None (fresh ()))
       = Inr ()
   \<and> fst (extract_document (Some broken_db) ''invoice'' ten_bytes None (fresh ()))
       = fst (extract_document (Some memory_db) ''invoice'' ten_bytes None (fresh []))
   \<and> (\<exists>r. fst (extract_document (Some broken_db) ''invoice'' ten_bytes None (fresh ())) = Inr r)"
proof -
  have h: "''invoice'' \<in> closed_set" by (simp add: closed_set_def)
  note t = log_job_never_raises [of "Some broken_db" "''invoice''" "''a.txt''" "Some 10"
        "''success''" "''done''" None "fresh ()" ten_bytes None "Some memory_db" "fresh []"]
  from t have a: "fst (log_job (Some broken_db) ''invoice'' ''a.txt'' (Some 10) ''success'' ''done'' None (fresh ())) = Inr ()"
    by (rule conjunct1)
  from t have b: "fst (extract_document (Some broken_db) ''invoice'' ten_bytes None (fresh ()))
       = fst (extract_document (Some memory_db) ''invoice'' ten_bytes None (fresh []))"
    by (elim conjE)
  from t h have c: "\<exists>r. fst (extract_document (Some broken_db) ''invoice'' ten_bytes None (fresh ())) = Inr r"
    by (elim conjE impE)
  from h a b c show ?thesis by (intro conjI)
qed

text \<open>
  C4. For every job type of the closed set, \<open>size_bytes\<close> of the response is the number
  of bytes of the uploaded content.
\<close>

theorem extract_size_bytes:
  assumes "jt \<in> closed_set"
  shows "\<exists>r. fst (extract_document dbm jt file options w) = Inr r
           \<and> ExtractResponse.size_bytes r = Some (int (length (content file)))"
proof -
  from assms obtain name where n: "ALLOWED_EXTRACT_TYPES jt = Some name"
    using closed_set_allowed by blast
  show ?thesis
    by (simp add: extract_document_response [OF n])
qed

theorem extract_size_bytes_witness:
  "''credit_card'' \<in> closed_set
   \<and> (\<exists>r. fst (extract_document None ''credit_card'' ten_bytes None (fresh ())) = Inr r
         \<and> ExtractResponse.size_bytes r = Some (int (length (content ten_bytes))))"
proof -
  have h: "''credit_card'' \<in> closed_set" by (simp add: closed_set_def)
  from h extract_size_bytes [OF h, of None ten_bytes None "fresh ()"]
  show ?thesis by (rule conjI)
qed

text \<open>
  C5. For a job type registered in \<open>ALLOWED_EXTRACT_TYPES\<close> with display name \<open>name\<close>,
  the response has \<open>tool = name\<close>, and \<open>summary\<close> is \<open>Parsed name for filename (demo)\<close>
  with the uploaded filename verbatim, so the filename is a substring of the summary.
\<close>

theorem extract_tool_and_summary:
  assumes "ALLOWED_EXTRACT_TYPES jt = Some name"
  shows "\<exists>r. fst (extract_document dbm jt file options w) = Inr r
           \<and> tool r = name
           \<and> summary r = ''Parsed '' @ name @ '' for '' @ UploadFile.filename file @ '' (demo)''
           \<and> (\<exists>pre post. summary r = pre @ UploadFile.filename file @ post)"
proof -
  let ?r = "\<lparr>tool = name, filename = UploadFile.filename file,
             size_bytes = Some (int (length (content file))),
             content_type = UploadFile.content_type file,
             summary = summary_text name (UploadFile.filename file),
             data = demo_data jt\<rparr>"
  have r: "fst (extract_document dbm jt file options w) = Inr ?r"
    by (rule extract_document_response [OF assms])
  have t: "tool ?r = name" by simp
  have s: "summary ?r = ''Parsed '' @ name @ '' for '' @ UploadFile.filename file @ '' (demo)''"
    by (simp add: summary_text_def)
  have "summary ?r = (''Parsed '' @ name @ '' for '') @ UploadFile.filename file @ '' (demo)''"
    by (simp add: summary_text_def)
  then have p: "\<exists>pre post. summary ?r = pre @ UploadFile.filename file @ post"
    by (intro exI)
  from r t s p show ?thesis by (intro exI [of _ ?r] conjI)
qed

theorem extract_tool_and_summary_witness:
  "ALLOWED_EXTRACT_TYPES ''bank_statement'' = Some ''Bank Statement Converter''
   \<and> (\<exists>r. fst (extract_document None ''bank_statement'' ten_bytes None (fresh ())) = Inr r
         \<and> tool r = ''Bank Statement Converter''
         \<and> summary r = ''Parsed '' @ ''Bank Statement Converter'' @ '' for ''
                          @ UploadFile.filename ten_bytes @ '' (demo)''
         \<and> (\<exists>pre post. summary r = pre @ UploadFile.filename ten_bytes @ post))"
proof -
  have h: "ALLOWED_EXTRACT_TYPES ''bank_statement'' = Some ''Bank Statement Converter''"
    by (simp add: ALLOWED_EXTRACT_TYPES_def)
  from h extract_tool_and_summary [OF h, of None ten_bytes None "fresh ()"]
  show ?thesis by (rule conjI)
qed

text \<open>
  C6, as amended. For every text and every \<open>max_sentences\<close> that is not negative,
  \<open>summarize\<close> strips the text, splits it on \<open>". "\<close>, takes the first \<open>max_sentences\<close>
  fragments and rejoins them with \<open>". "\<close>, and returns the fixed text when the result is
  empty; and \<open>summarize("A. B. C. D.", 2)\<close> is \<open>"A. B"\<close>.
\<close>

theorem summarize_first_fragments:
  "(0 \<le> max_sentences \<longrightarrow> summarize text max_sentences = summarize_spec text max_sentences)
   \<and> summarize (ascii ''A. B. C. D.'') 2 = ascii ''A. B''"
proof
  show "0 \<le> max_sentences \<longrightarrow> summarize text max_sentences = summarize_spec text max_sentences"
    unfolding summarize_def summarize_spec_def by (simp add: py_slice_to_nonneg)
  show "summarize (ascii ''A. B. C. D.'') 2 = ascii ''A. B''"
    by (rule summarize_scenario)
qed

theorem summarize_first_fragments_witness:
  "(0::int) \<le> 2
   \<and> summarize (ascii ''A. B. C. D.'') 2 = summarize_spec (ascii ''A. B. C. D.'') 2
   \<and> summarize_spec (ascii ''A. B. C. D.'') 2 = ascii ''A. B''"
proof -
  have h: "(0::int) \<le> 2" by simp
  from summarize_first_fragments [of 2 "ascii ''A. B. C. D.''"] h
  have a: "summarize (ascii ''A. B. C. D.'') 2 = summarize_spec (ascii ''A. B. C. D.'') 2"
    by (elim conjE impE)
  from summarize_first_fragments [of 2 "ascii ''A. B. C. D.''"]
  have b: "summarize (ascii ''A. B. C. D.'') 2 = ascii ''A. B''"
    by (rule conjunct2)
  have c: "summarize_spec (ascii ''A. B. C. D.'') 2 = ascii ''A. B''"
    using b unfolding a .
  from h a c show ?thesis by (intro conjI)
qed

text \<open>
  With a negative \<open>max_sentences\<close> the slice keeps all but the last fragments, which is
  not a prefix of the requested length: for \<open>-1\<close> three of the four fragments are kept.
\<close>

theorem summarize_negative_counterexample:
  "summarize (ascii ''A. B. C. D.'') (- 1) = ascii ''A. B. C''
   \<and> summarize (ascii ''A. B. C. D.'') (- 1) \<noteq> summarize_spec (ascii ''A. B. C. D.'') (- 1)"
  unfolding summarize_minus_one summarize_spec_minus_one ascii_abc ascii_fallback
  by simp

text \<open>
  C7. Extracting a 10-byte upload named \<open>a.txt\<close> with job type \<open>receipt\<close> returns a
  response with tool \<open>Receipt Scanner\<close>, \<open>size_bytes = 10\<close>, summary
  \<open>Parsed Receipt Scanner for a.txt (demo)\<close> and \<open>data["total"] = 4.26\<close>.
\<close>

theorem receipt_scenario:
  assumes "UploadFile.filename file = ''a.txt''" and "length (content file) = 10"
  shows "\<exists>r. fst (extract_document dbm ''receipt'' file options w) = Inr r
           \<and> tool r = ''Receipt Scanner''
           \<and> ExtractResponse.size_bytes r = Some 10
           \<and> summary r = ''Parsed Receipt Scanner for a.txt (demo)''
           \<and> map_of (data r) ''total'' = Some (JFloat 4.26)"
  using assms
  by (simp add: extract_document_response [OF allowed_receipt] summary_text_receipt receipt_total)

theorem receipt_scenario_witness:
  "UploadFile.filename ten_bytes = ''a.txt'' \<and> length (content ten_bytes) = 10
   \<and> (\<exists>r. fst (extract_document (Some memory_db) ''receipt'' ten_bytes None (fresh [])) = Inr r
           \<and> tool r = ''Receipt Scanner''
           \<and> ExtractResponse.size_bytes r = Some 10
           \<and> summary r = ''Parsed Receipt Scanner for a.txt (demo)''
           \<and> map_of (data r) ''total'' = Some (JFloat 4.26))"
proof -
  have f: "UploadFile.filename ten_bytes = ''a.txt''" by (simp add: ten_bytes_def)
  have l: "length (content ten_bytes) = 10" by (simp add: ten_bytes_def)
  from f l receipt_scenario [OF f l, of "Some memory_db" None "fresh []"]
  show ?thesis by (intro conjI)
qed

text \<open>
  C8. For every limit, \<open>list_jobs\<close> returns normally; it returns \<open>{"items": []}\<close> when
  the store module is absent, when \<open>get_documents\<close> raises, when cleaning a record
  raises, and in general whenever the body of its \<open>try\<close> block raises.
\<close>

theorem list_jobs_never_raises:
  "(\<exists>r. fst (list_jobs dbm str_builtin limit w) = Inr r)
   \<and> fst (list_jobs None str_builtin limit w) = Inr \<lparr>items = []\<rparr>
   \<and> (fst (get_documents db ''extractionjob'' limit (store w)) = Inl e
        \<longrightarrow> fst (list_jobs (Some db) str_builtin limit w) = Inr \<lparr>items = []\<rparr>)
   \<and> (fst (get_documents db ''extractionjob'' limit (store w)) = Inr docs
          \<and> clean_all str_builtin docs = Inl e'
        \<longrightarrow> fst (list_jobs (Some db) str_builtin limit w) = Inr \<lparr>items = []\<rparr>)
   \<and> (fst (list_jobs_try dbm str_builtin limit w) = Inl e''
        \<longrightarrow> fst (list_jobs dbm str_builtin limit w) = Inr \<lparr>items = []\<rparr>)"
proof (intro conjI impI)
  show "\<exists>r. fst (list_jobs dbm str_builtin limit w) = Inr r"
    by (rule list_jobs_returns)
  show "fst (list_jobs None str_builtin limit w) = Inr \<lparr>items = []\<rparr>"
    by (rule list_jobs_on_failure [OF list_jobs_try_absent])
  show "fst (list_jobs (Some db) str_builtin limit w) = Inr \<lparr>items = []\<rparr>"
    if "fst (get_documents db ''extractionjob'' limit (store w)) = Inl e"
    by (rule list_jobs_on_failure [OF list_jobs_try_read_error [OF that]])
  show "fst (list_jobs (Some db) str_builtin limit w) = Inr \<lparr>items = []\<rparr>"
    if "fst (get_documents db ''extractionjob'' limit (store w)) = Inr docs
          \<and> clean_all str_builtin docs = Inl e'"
    using that by (auto intro: list_jobs_on_failure [OF list_jobs_try_clean_error])
  show "fst (list_jobs dbm str_builtin limit w) = Inr \<lparr>items = []\<rparr>"
    if "fst (list_jobs_try dbm str_builtin limit w) = Inl e''"
    by (rule list_jobs_on_failure [OF that])
qed

theorem list_jobs_never_raises_witness:
  "fst (get_documents broken_db ''extractionjob'' 20 (store (fresh ()))) = Inl (OtherException ''read failed'')
   \<and> fst (list_jobs (Some broken_db) sample_str 20 (fresh ())) = Inr \<lparr>items = []\<rparr>
   \<and> fst (get_documents odd_db ''extractionjob'' 20 (store (fresh ()))) =
       Inr [Dict [(''_id'', ObjectId ''65a0''), (''status'', Plain (JStr ''success''))], NotADict]
   \<and> clean_all sample_str
        [Dict [(''_id'', ObjectId ''65a0''), (''status'', Plain (JStr ''success''))], NotADict]
       = Inl AttributeError
   \<and> fst (list_jobs (Some odd_db) sample_str 20 (fresh ())) = Inr \<lparr>items = []\<rparr>
   \<and> fst (list_jobs_try (None :: unit database option) sample_str 20 (fresh ())) = Inl ImportError
   \<and> fst (list_jobs (None :: unit database option) sample_str 20 (fresh ())) = Inr \<lparr>items = []\<rparr>"
proof -
  note t1 = list_jobs_never_raises [of "Some broken_db" sample_str 20 "fresh ()" broken_db
      "OtherException ''read failed''" "[]" ImportError ImportError]
  note t2 = list_jobs_never_raises [of "Some odd_db" sample_str 20 "fresh ()" odd_db ImportError
      "[Dict [(''_id'', ObjectId ''65a0''), (''status'', Plain (JStr ''success''))], NotADict]"
      AttributeError ImportError]
  note t3 = list_jobs_never_raises [of "None :: unit database option" sample_str 20 "fresh ()"
      broken_db ImportError "[]" ImportError ImportError]
  have a: "fst (list_jobs (Some broken_db) sample_str 20 (fresh ())) = Inr \<lparr>items = []\<rparr>"
    using t1 broken_get by blast
  have b: "fst (list_jobs (Some odd_db) sample_str 20 (fresh ())) = Inr \<lparr>items = []\<rparr>"
    using t2 odd_get odd_clean by blast
  have i: "fst (list_jobs_try (None :: unit database option) sample_str 20 (fresh ())) = Inl ImportError"
    by (rule list_jobs_try_absent)
  have c: "fst (list_jobs (None :: unit database option) sample_str 20 (fresh ())) = Inr \<lparr>items = []\<rparr>"
    using t3 i by blast
  from broken_get a odd_get odd_clean b i c show ?thesis by (intro conjI)
qed

text \<open>
  C9. Two calls of \<open>extract_document\<close> with the same job type of the closed set, the same
  filename and content type and contents of the same length return the same response,
  whatever the bytes, the \<open>options\<close>, the stores and the worlds of the two calls are.
\<close>

theorem extract_two_runs:
  assumes "jt \<in> closed_set"
    and "UploadFile.filename f1 = UploadFile.filename f2"
    and "UploadFile.content_type f1 = UploadFile.content_type f2"
    and "length (content f1) = length (content f2)"
  shows "\<exists>r. fst (extract_document dbm1 jt f1 options1 w1) = Inr r
           \<and> fst (extract_document dbm2 jt f2 options2 w2) = Inr r"
proof -
  from assms(1) obtain name where n: "ALLOWED_EXTRACT_TYPES jt = Some name"
    using closed_set_allowed by blast
  show ?thesis
    using assms(2-4) by (simp add: extract_document_response [OF n])
qed

theorem extract_two_runs_witness:
  "''table_extract'' \<in> closed_set
   \<and> UploadFile.filename ten_bytes = UploadFile.filename ten_zeros
   \<and> UploadFile.content_type ten_bytes = UploadFile.content_type ten_zeros
   \<and> length (content ten_bytes) = length (content ten_zeros)
   \<and> content ten_bytes \<noteq> content ten_zeros
   \<and> (\<exists>r. fst (extract_document (Some memory_db) ''table_extract'' ten_bytes (Some ''fast'') (fresh [])) = Inr r
         \<and> fst (extract_document (Some broken_db) ''table_extract'' ten_zeros None (fresh ())) = Inr r)"
proof -
  have h: "''table_extract'' \<in> closed_set" by (simp add: closed_set_def)
  have f: "UploadFile.filename ten_bytes = UploadFile.filename ten_zeros"
    by (simp add: ten_bytes_def ten_zeros_def)
  have c: "UploadFile.content_type ten_bytes = UploadFile.content_type ten_zeros"
    by (simp add: ten_bytes_def ten_zeros_def)
  have l: "length (content ten_bytes) = length (content ten_zeros)"
    by (simp add: ten_bytes_def ten_zeros_def)
  have d: "content ten_bytes \<noteq> content ten_zeros"
    by (simp add: ten_bytes_def ten_zeros_def)
  from h f c l d
    extract_two_runs [OF h f c l, of "Some memory_db" "Some ''fast''" "fresh []"
      "Some broken_db" None "fresh ()"]
  show ?thesis by (intro conjI)
qed

text \<open>
  C10. For every text, \<open>summarize(text, 0)\<close> returns \<open>No content provided.\<close>
\<close>

theorem summarize_zero: "summarize text 0 = ascii ''No content provided.''"
  unfolding summarize_def by (simp add: py_slice_to_def)

end
